theory Spec2Isabelle
  imports Complex_Main
begin

section \<open>Streaming speaker diarization: the pipeline orchestration\<close>

text \<open>
  This theory embeds \<^verbatim>\<open>src/diart/pipelines.py\<close>: the configuration object
  \<^verbatim>\<open>PipelineConfig\<close>, the tracking stage \<^verbatim>\<open>OnlineSpeakerTracking\<close> and the two entry
  points of \<^verbatim>\<open>OnlineSpeakerDiarization\<close>.

  Conventions of the embedding.
  \<^item> Python floats are read as real numbers: rounding, infinities and NaN are not part of
    the model.
  \<^item> An exception is a value of type \<open>error\<close>; a function that may raise returns
    \<open>error + 'a\<close> with \<open>Inl\<close> for the exception. Assertions are taken to be enabled (the
    interpreter's default mode).
  \<^item> An observable is the list of the items it emits, in order, before it completes or
    fails; \<^verbatim>\<open>ops.map\<close> is \<open>map\<close> and \<^verbatim>\<open>rx.zip\<close> is \<open>zip\<close>.
  \<^item> The modules \<^verbatim>\<open>functional\<close>, \<^verbatim>\<open>operators\<close> and \<^verbatim>\<open>sources\<close> and the libraries
    behind them are not part of the file: what the pipeline calls from them is a field of
    the record \<open>collaborators\<close> or of a model record, and every theorem holds for all of
    their values.
\<close>

subsection \<open>Errors and arithmetic\<close>

datatype error =
    InvalidLatency  \<comment> \<open>\<^verbatim>\<open>AssertionError("Invalid latency requested")\<close>\<close>
  | SampleRateMismatch int int
      \<comment> \<open>\<^verbatim>\<open>AssertionError("Audio source has sample rate {a}, expected {b}")\<close>\<close>
  | ZeroDivisionError
  | ValueError

text \<open>
  Python's \<^verbatim>\<open>x % y\<close> on numbers: it raises for a zero divisor, and the result otherwise
  is \<open>x - y * floor (x / y)\<close>, which has the sign of the divisor.
\<close>

definition py_mod :: "real \<Rightarrow> real \<Rightarrow> error + real" where
  "py_mod x y = (if y = 0 then Inl ZeroDivisionError else Inr (x - y * of_int \<lfloor>x / y\<rfloor>))"

text \<open>Python's true division \<^verbatim>\<open>x / y\<close>.\<close>

definition py_truediv :: "real \<Rightarrow> real \<Rightarrow> error + real" where
  "py_truediv x y = (if y = 0 then Inl ZeroDivisionError else Inr (x / y))"

subsection \<open>Data\<close>

text \<open>
  \<^verbatim>\<open>pyannote.core.SlidingWindow(duration, step, start)\<close> and
  \<^verbatim>\<open>SlidingWindowFeature(data, sliding_window)\<close>: an array with the time grid of its rows.
  The type \<open>'a\<close> stands for the array of one window (samples by channels for audio, frames
  by speakers for a segmentation).
\<close>

record sliding_window =
  sw_duration :: real
  sw_step :: real
  sw_start :: real

record 'a sliding_window_feature =
  swf_data :: 'a
  swf_sliding_window :: sliding_window

text \<open>
  \<^verbatim>\<open>fn.FrameWiseModel\<close>, the loaded segmentation model: the two attributes the pipeline
  reads (\<^verbatim>\<open>model.specifications.duration\<close>, \<^verbatim>\<open>model.audio.sample_rate\<close>) and its call,
  which the live entry point applies to one window and the file entry point to a batch of
  chunk arrays.
\<close>

record 'a frame_wise_model =
  specifications_duration :: real
  audio_sample_rate :: int
  fw_call :: "'a sliding_window_feature \<Rightarrow> 'a sliding_window_feature"
  fw_call_batch :: "'a list \<Rightarrow> 'a list"

text \<open>
  \<^verbatim>\<open>fn.ChunkWiseModel\<close>, the loaded embedding model, called with a waveform and frame
  weights; \<open>'e\<close> is the tensor of embeddings of one window.
\<close>

record ('a, 'e) chunk_wise_model =
  cw_call :: "'a sliding_window_feature \<Rightarrow> 'a sliding_window_feature \<Rightarrow> 'e"
  cw_call_batch :: "'a list \<Rightarrow> 'a list \<Rightarrow> 'e list"

text \<open>The attributes of a constructed \<^verbatim>\<open>PipelineConfig\<close>.\<close>

record ('a, 'e) pipeline_config =
  segmentation :: "'a frame_wise_model"
  duration :: real
  embedding :: "('a, 'e) chunk_wise_model"
  step :: real
  latency :: real
  tau_active :: real
  rho_update :: real
  delta_new :: real
  gamma :: real
  beta :: real
  max_speakers :: int

text \<open>
  \<^verbatim>\<open>PipelineConfig.__init__\<close>. The two model arguments are the models as wrapped by
  \<^verbatim>\<open>fn.FrameWiseModel\<close> and \<^verbatim>\<open>fn.ChunkWiseModel\<close>; \<open>None\<close> for \<open>duration'\<close> or \<open>latency'\<close> is
  the argument left at its default. The other arguments are always passed: their defaults
  in the source are the values of \<open>example_config\<close> below. The chained comparison of the
  assertion is the conjunction of its two halves.
\<close>

definition PipelineConfig_init ::
  "'a frame_wise_model \<Rightarrow> ('a, 'e) chunk_wise_model \<Rightarrow> real option \<Rightarrow> real \<Rightarrow> real option \<Rightarrow>
   real \<Rightarrow> real \<Rightarrow> real \<Rightarrow> real \<Rightarrow> real \<Rightarrow> int \<Rightarrow> error + ('a, 'e) pipeline_config" where
  "PipelineConfig_init segmentation' embedding' duration' step' latency'
      tau_active' rho_update' delta_new' gamma' beta' max_speakers' =
    (let self_duration =
           (case duration' of None \<Rightarrow> specifications_duration segmentation' | Some d \<Rightarrow> d);
         self_latency = (case latency' of None \<Rightarrow> step' | Some l \<Rightarrow> l)
     in if step' \<le> self_latency \<and> self_latency \<le> self_duration
        then Inr \<lparr>segmentation = segmentation', duration = self_duration,
                  embedding = embedding', step = step', latency = self_latency,
                  tau_active = tau_active', rho_update = rho_update', delta_new = delta_new',
                  gamma = gamma', beta = beta', max_speakers = max_speakers'\<rparr>
        else Inl InvalidLatency)"

text \<open>The property \<^verbatim>\<open>PipelineConfig.sample_rate\<close>.\<close>

definition sample_rate :: "('a, 'e) pipeline_config \<Rightarrow> int" where
  "sample_rate config = audio_sample_rate (segmentation config)"

text \<open>What the pipeline reads of a \<^verbatim>\<open>src.AudioSource\<close>.\<close>

record 'a audio_source =
  src_uri :: string
  src_sample_rate :: int
  src_duration :: "real option"
  src_is_regular :: bool
  src_stream :: "'a sliding_window_feature list"

text \<open>\<^verbatim>\<open>PipelineConfig.get_end_time\<close>.\<close>

definition get_end_time ::
  "('a, 'e) pipeline_config \<Rightarrow> 'a audio_source \<Rightarrow> error + real option" where
  "get_end_time config source =
    (case src_duration source of
       Some d \<Rightarrow>
         (case py_mod d (step config) of
            Inl e \<Rightarrow> Inl e
          | Inr r \<Rightarrow> Inr (Some (d - r)))
     | None \<Rightarrow> Inr None)"

subsection \<open>Collaborators outside the file\<close>

text \<open>
  The attributes of a constructed \<^verbatim>\<open>fn.DelayedAggregation\<close>.
\<close>

record delayed_aggregation =
  da_step :: real
  da_latency :: real
  da_strategy :: string
  da_stream_end :: "real option"
  num_overlapping_windows :: int

text \<open>
  Modelled from the spec: the constructor of \<^verbatim>\<open>fn.DelayedAggregation\<close>, whose class is
  not in the file. The spec gives \<open>num_overlapping_windows = ceil (latency / step)\<close>; the
  division raises for a zero step, as every Python division does.
\<close>

definition DelayedAggregation_init ::
  "real \<Rightarrow> real \<Rightarrow> string \<Rightarrow> real option \<Rightarrow> error + delayed_aggregation" where
  "DelayedAggregation_init step' latency' strategy stream_end =
    (case py_truediv latency' step' of
       Inl e \<Rightarrow> Inl e
     | Inr q \<Rightarrow>
         Inr \<lparr>da_step = step', da_latency = latency', da_strategy = strategy,
              da_stream_end = stream_end, num_overlapping_windows = \<lceil>q\<rceil>\<rparr>)"

text \<open>
  Everything else the pipeline calls. \<open>'st\<close> is the state of the clustering object
  (its speaker registry), \<open>'ann\<close> an \<^verbatim>\<open>Annotation\<close>, \<open>'f\<close> a file path.
  \<^item> \<open>regularize_stream duration step sample_rate\<close> and \<open>buffer_slide n\<close> are the operators
    of \<^verbatim>\<open>operators\<close>, as functions on the emitted items;
  \<^item> \<open>OverlappedSpeechPenalty gamma beta\<close> and \<open>EmbeddingNormalization norm\<close> are the
    callables of \<^verbatim>\<open>functional\<close>, on one window and (\<open>_batch\<close>) on a batch;
  \<^item> \<open>OnlineSpeakerClustering tau_active rho_update delta_new metric max_speakers\<close> is the
    state of a fresh clustering object, \<open>clustering_call\<close> one call of it, returning the
    relabelled segmentation and the state after the call;
  \<^item> \<open>aggregation_call\<close> is the call of a \<^verbatim>\<open>DelayedAggregation\<close> on a buffer of windows,
    \<open>Binarize uri tau_active\<close> the binarizer;
  \<^item> \<open>get_duration\<close> is \<^verbatim>\<open>chunk_loader.audio.get_duration\<close>,
    \<open>get_chunks sample_rate duration step\<close> is \<^verbatim>\<open>ChunkLoader(...).get_chunks\<close> (one array
    per chunk), \<open>rearrange\<close> the \<^verbatim>\<open>einops\<close> transposition of one chunk, \<open>path_name\<close> is
    \<^verbatim>\<open>Path(file).name\<close> and \<open>shape1\<close> is \<^verbatim>\<open>shape[1]\<close> of a stacked array.
\<close>

record ('a, 'e, 'st, 'ann, 'f) collaborators =
  regularize_stream ::
    "real \<Rightarrow> real \<Rightarrow> int \<Rightarrow> 'a sliding_window_feature list \<Rightarrow> 'a sliding_window_feature list"
  buffer_slide ::
    "int \<Rightarrow> 'a sliding_window_feature list \<Rightarrow> 'a sliding_window_feature list list"
  OverlappedSpeechPenalty ::
    "real \<Rightarrow> real \<Rightarrow> 'a sliding_window_feature \<Rightarrow> 'a sliding_window_feature"
  OverlappedSpeechPenalty_batch :: "real \<Rightarrow> real \<Rightarrow> 'a list \<Rightarrow> 'a list"
  EmbeddingNormalization :: "real \<Rightarrow> 'e \<Rightarrow> 'e"
  EmbeddingNormalization_batch :: "real \<Rightarrow> 'e list \<Rightarrow> 'e list"
  OnlineSpeakerClustering :: "real \<Rightarrow> real \<Rightarrow> real \<Rightarrow> string \<Rightarrow> int \<Rightarrow> 'st"
  clustering_call ::
    "'st \<Rightarrow> 'a sliding_window_feature \<Rightarrow> 'e \<Rightarrow> 'a sliding_window_feature \<times> 'st"
  aggregation_call ::
    "delayed_aggregation \<Rightarrow> 'a sliding_window_feature list \<Rightarrow> 'a sliding_window_feature"
  Binarize :: "string \<Rightarrow> real \<Rightarrow> 'a sliding_window_feature \<Rightarrow> 'ann"
  get_duration :: "'f \<Rightarrow> real"
  get_chunks :: "int \<Rightarrow> real \<Rightarrow> real \<Rightarrow> 'f \<Rightarrow> 'a list"
  rearrange :: "'a \<Rightarrow> 'a"
  path_name :: "'f \<Rightarrow> string"
  shape1 :: "'a list \<Rightarrow> nat"

subsection \<open>The tracking stage\<close>

text \<open>
  \<^verbatim>\<open>ops.starmap(clustering)\<close>: the clustering object is called on each pair in arrival
  order, and each call leaves the state the next call starts from.
\<close>

fun starmap_stateful ::
  "('st \<Rightarrow> 'x \<Rightarrow> 'y \<Rightarrow> 'z \<times> 'st) \<Rightarrow> 'st \<Rightarrow> ('x \<times> 'y) list \<Rightarrow> 'z list" where
  "starmap_stateful f s [] = []"
| "starmap_stateful f s ((x, y) # rest) =
     (case f s x y of (z, s') \<Rightarrow> z # starmap_stateful f s' rest)"

text \<open>
  The annotation branch of \<^verbatim>\<open>from_model_streams\<close> (its local \<^verbatim>\<open>pipeline\<close>), for an
  aggregation object already constructed.
\<close>

definition annotation_pipeline ::
  "('a, 'e, 'st, 'ann, 'f) collaborators \<Rightarrow> ('a, 'e) pipeline_config \<Rightarrow> string \<Rightarrow>
   delayed_aggregation \<Rightarrow> 'a sliding_window_feature list \<Rightarrow> 'e list \<Rightarrow> 'ann list" where
  "annotation_pipeline ops config uri aggregation segmentation_stream embedding_stream =
    (let clustering =
           OnlineSpeakerClustering ops (tau_active config) (rho_update config)
             (delta_new config) ''cosine'' (max_speakers config);
         binarize = Binarize ops uri (tau_active config)
     in map binarize
          (map (aggregation_call ops aggregation)
             (buffer_slide ops (num_overlapping_windows aggregation)
                (starmap_stateful (clustering_call ops) clustering
                   (zip segmentation_stream embedding_stream)))))"

text \<open>
  The waveform branch of \<^verbatim>\<open>from_model_streams\<close> (its local \<^verbatim>\<open>waveform_stream\<close>), for a
  window selector already constructed.
\<close>

definition waveform_stream ::
  "('a, 'e, 'st, 'ann, 'f) collaborators \<Rightarrow> delayed_aggregation \<Rightarrow>
   'a sliding_window_feature list \<Rightarrow> 'a sliding_window_feature list" where
  "waveform_stream ops window_selector audio_chunk_stream =
    map (aggregation_call ops window_selector)
      (buffer_slide ops (num_overlapping_windows window_selector) audio_chunk_stream)"

text \<open>
  \<^verbatim>\<open>OnlineSpeakerTracking.from_model_streams\<close>. The emitted tuples \<^verbatim>\<open>(ann, wave)\<close> and
  \<^verbatim>\<open>(ann, None)\<close> are pairs whose second component is an option.
\<close>

definition from_model_streams ::
  "('a, 'e, 'st, 'ann, 'f) collaborators \<Rightarrow> ('a, 'e) pipeline_config \<Rightarrow> string \<Rightarrow>
   real option \<Rightarrow> 'a sliding_window_feature list \<Rightarrow> 'e list \<Rightarrow>
   'a sliding_window_feature list option \<Rightarrow>
   error + ('ann \<times> 'a sliding_window_feature option) list" where
  "from_model_streams ops config uri end_time segmentation_stream embedding_stream
      audio_chunk_stream =
    (case DelayedAggregation_init (step config) (latency config) ''hamming'' end_time of
       Inl e \<Rightarrow> Inl e
     | Inr aggregation \<Rightarrow>
         (let pipeline =
                annotation_pipeline ops config uri aggregation segmentation_stream
                  embedding_stream
          in case audio_chunk_stream of
               Some chunks \<Rightarrow>
                 (case DelayedAggregation_init (step config) (latency config) ''first''
                         end_time of
                    Inl e \<Rightarrow> Inl e
                  | Inr window_selector \<Rightarrow>
                      Inr (map (\<lambda>(ann, wave). (ann, Some wave))
                             (zip pipeline (waveform_stream ops window_selector chunks))))
             | None \<Rightarrow> Inr (map (\<lambda>ann. (ann, None)) pipeline)))"

subsection \<open>The live entry point\<close>

text \<open>The locals \<^verbatim>\<open>regular_stream\<close>, \<^verbatim>\<open>segmentation_stream\<close> and \<^verbatim>\<open>embedding_stream\<close> of
  \<^verbatim>\<open>from_source\<close>.\<close>

definition regular_stream ::
  "('a, 'e, 'st, 'ann, 'f) collaborators \<Rightarrow> ('a, 'e) pipeline_config \<Rightarrow> 'a audio_source \<Rightarrow>
   'a sliding_window_feature list" where
  "regular_stream ops config source =
    (if \<not> src_is_regular source
     then regularize_stream ops (duration config) (step config) (src_sample_rate source)
            (src_stream source)
     else src_stream source)"

definition source_segmentation_stream ::
  "('a, 'e) pipeline_config \<Rightarrow> 'a sliding_window_feature list \<Rightarrow>
   'a sliding_window_feature list" where
  "source_segmentation_stream config regular = map (fw_call (segmentation config)) regular"

definition source_embedding_stream ::
  "('a, 'e, 'st, 'ann, 'f) collaborators \<Rightarrow> ('a, 'e) pipeline_config \<Rightarrow>
   'a sliding_window_feature list \<Rightarrow> 'a sliding_window_feature list \<Rightarrow> 'e list" where
  "source_embedding_stream ops config regular segmentation_stream =
    (let osp = OverlappedSpeechPenalty ops (gamma config) (beta config)
     in map (EmbeddingNormalization ops 1)
          (map (\<lambda>(wave, weights). cw_call (embedding config) wave weights)
             (map (\<lambda>(wave, seg). (wave, osp seg))
                (zip regular segmentation_stream))))"

text \<open>\<^verbatim>\<open>OnlineSpeakerDiarization.from_source\<close>.\<close>

definition from_source ::
  "('a, 'e, 'st, 'ann, 'f) collaborators \<Rightarrow> ('a, 'e) pipeline_config \<Rightarrow> 'a audio_source \<Rightarrow>
   bool \<Rightarrow> error + ('ann \<times> 'a sliding_window_feature option) list" where
  "from_source ops config source output_waveform =
    (if src_sample_rate source \<noteq> sample_rate config
     then Inl (SampleRateMismatch (src_sample_rate source) (sample_rate config))
     else
       (let regular = regular_stream ops config source;
            segmentation_stream = source_segmentation_stream config regular;
            embedding_stream = source_embedding_stream ops config regular segmentation_stream
        in case get_end_time config source of
             Inl e \<Rightarrow> Inl e
           | Inr end_time \<Rightarrow>
               (let chunk_stream = (if output_waveform then Some regular else None)
                in from_model_streams ops config (src_uri source) end_time
                     segmentation_stream embedding_stream chunk_stream)))"

subsection \<open>The file entry point\<close>

text \<open>
  The batching loop of \<^verbatim>\<open>from_file\<close>, from index \<open>i\<close> on, with the two lists it appends
  to. A batch array is the list of its chunks, so \<^verbatim>\<open>chunks[i:i_end]\<close> is a \<open>take\<close> of a
  \<open>drop\<close>. The loop is entered for a positive \<open>batch_size\<close> only.
\<close>

function from_file_loop ::
  "('a, 'e, 'st, 'ann, 'f) collaborators \<Rightarrow> ('a, 'e) pipeline_config \<Rightarrow> 'a list \<Rightarrow> nat \<Rightarrow>
   nat \<Rightarrow> 'a list list \<Rightarrow> 'e list list \<Rightarrow> 'a list list \<times> 'e list list" where
  "from_file_loop ops config chunks batch_size i segmentation' embeddings =
    (if batch_size = 0 \<or> length chunks \<le> i then (segmentation', embeddings)
     else
       (let num_chunks = length chunks;
            i_end = (if i + batch_size > num_chunks then num_chunks else i + batch_size);
            batch = take (i_end - i) (drop i chunks);
            seg = fw_call_batch (segmentation config) batch;
            emb = EmbeddingNormalization_batch ops 1
                    (cw_call_batch (embedding config) batch
                       (OverlappedSpeechPenalty_batch ops (gamma config) (beta config) seg))
        in from_file_loop ops config chunks batch_size (i + batch_size)
             (segmentation' @ [seg]) (embeddings @ [emb])))"
  by pat_completeness auto
termination
  by (relation "measure (\<lambda>(ops, config, chunks, batch_size, i, s, e). length chunks - i)") auto

text \<open>The local \<^verbatim>\<open>end_time\<close> of \<^verbatim>\<open>from_file\<close>.\<close>

definition from_file_end_time ::
  "('a, 'e, 'st, 'ann, 'f) collaborators \<Rightarrow> ('a, 'e) pipeline_config \<Rightarrow> 'f \<Rightarrow> error + real" where
  "from_file_end_time ops config file = py_mod (get_duration ops file) (step config)"

text \<open>
  The lists \<^verbatim>\<open>segmentation\<close> and \<^verbatim>\<open>embeddings\<close> of \<^verbatim>\<open>from_file\<close> before stacking.
  \<^verbatim>\<open>range(0, num_chunks, batch_size)\<close> raises for a zero \<open>batch_size\<close> and is empty for a
  negative one.
\<close>

definition from_file_batches ::
  "('a, 'e, 'st, 'ann, 'f) collaborators \<Rightarrow> ('a, 'e) pipeline_config \<Rightarrow> 'a list \<Rightarrow> int \<Rightarrow>
   error + ('a list list \<times> 'e list list)" where
  "from_file_batches ops config chunks batch_size =
    (if batch_size = 0 then Inl ValueError
     else if batch_size < 0 then Inr ([], [])
     else Inr (from_file_loop ops config chunks (nat batch_size) 0 [] []))"

text \<open>
  A stream that replays a stacked array, as \<^verbatim>\<open>from_file\<close> builds it twice:
  \<^verbatim>\<open>rx.range(0, num_chunks)\<close> mapped by
  \<^verbatim>\<open>lambda i: SlidingWindowFeature(array[i], SlidingWindow(res, res, i * step))\<close>.
  It emits one window per index and ends at the first index that is out of range for the
  array.
\<close>

definition replay_windows ::
  "'a list \<Rightarrow> nat \<Rightarrow> real \<Rightarrow> real \<Rightarrow> 'a sliding_window_feature list" where
  "replay_windows array num_chunks resolution step' =
    map (\<lambda>i. \<lparr>swf_data = array ! i,
              swf_sliding_window =
                \<lparr>sw_duration = resolution, sw_step = resolution,
                 sw_start = real i * step'\<rparr>\<rparr>)
      [0..<min num_chunks (length array)]"

text \<open>
  \<^verbatim>\<open>OnlineSpeakerDiarization.from_file\<close>. Stacking an empty list of batches raises
  \<^verbatim>\<open>ValueError\<close>; stacking is \<open>concat\<close> otherwise. The stream of embeddings replays
  the stacked tensor index by index in the same way as the two streams of windows.
\<close>

definition from_file ::
  "('a, 'e, 'st, 'ann, 'f) collaborators \<Rightarrow> ('a, 'e) pipeline_config \<Rightarrow> 'f \<Rightarrow> bool \<Rightarrow> int \<Rightarrow>
   error + ('ann \<times> 'a sliding_window_feature option) list" where
  "from_file ops config file output_waveform batch_size =
    (let uri = takeWhile (\<lambda>c. c \<noteq> CHR ''.'') (path_name ops file)
     in case from_file_end_time ops config file of
          Inl e \<Rightarrow> Inl e
        | Inr end_time \<Rightarrow>
     (let chunks = map (rearrange ops)
                     (get_chunks ops (sample_rate config) (duration config) (step config) file);
          num_chunks = length chunks
      in case from_file_batches ops config chunks batch_size of
           Inl e \<Rightarrow> Inl e
         | Inr (seg_batches, emb_batches) \<Rightarrow>
      if seg_batches = [] then Inl ValueError
      else
      (let segmentation' = concat seg_batches;
           embeddings = concat emb_batches
       in case py_truediv (duration config) (real (shape1 ops segmentation')) of
            Inl e \<Rightarrow> Inl e
          | Inr resolution \<Rightarrow>
       (let segmentation_stream =
              replay_windows segmentation' num_chunks resolution (step config);
            embedding_stream =
              map (\<lambda>i. embeddings ! i) [0..<min num_chunks (length embeddings)]
        in case py_truediv 1 (real_of_int (sample_rate config)) of
             Inl e \<Rightarrow> Inl e
           | Inr wav_resolution \<Rightarrow>
        (let chunk_stream =
               (if output_waveform
                then Some (replay_windows chunks num_chunks wav_resolution (step config))
                else None)
         in from_model_streams ops config uri (Some end_time) segmentation_stream
              embedding_stream chunk_stream)))))"

text \<open>
  The batches the loop of \<^verbatim>\<open>from_file\<close> visits from index \<open>i\<close> on: the slices
  \<^verbatim>\<open>chunks[i:i + batch_size]\<close>, \<^verbatim>\<open>chunks[i + batch_size:i + 2 * batch_size]\<close>, ...
  It is used to state what the loop computes.
\<close>

function batch_slices :: "nat \<Rightarrow> nat \<Rightarrow> 'a list \<Rightarrow> 'a list list" where
  "batch_slices batch_size i chunks =
    (if batch_size = 0 \<or> length chunks \<le> i then []
     else take batch_size (drop i chunks) # batch_slices batch_size (i + batch_size) chunks)"
  by pat_completeness auto
termination
  by (relation "measure (\<lambda>(batch_size, i, chunks). length chunks - i)") auto

subsection \<open>A concrete instance\<close>

text \<open>
  Small stand-ins for the collaborators, on which the definitions can be evaluated: arrays,
  embeddings and the clustering state are natural numbers, an annotation is the uri with a
  number. The configuration has the default parameters of \<^verbatim>\<open>PipelineConfig\<close>
  (\<open>step = 0.5\<close>, \<open>tau_active = 0.6\<close>, \<open>rho_update = 0.3\<close>, \<open>delta_new = 1\<close>, \<open>gamma = 3\<close>,
  \<open>beta = 10\<close>, \<open>max_speakers = 20\<close>) for a model of duration 5 at 16 kHz.
\<close>

definition example_segmentation :: "nat frame_wise_model" where
  "example_segmentation =
    \<lparr>specifications_duration = 5, audio_sample_rate = 16000,
     fw_call = (\<lambda>w. w\<lparr>swf_data := Suc (swf_data w)\<rparr>),
     fw_call_batch = map Suc\<rparr>"

definition example_embedding :: "(nat, nat) chunk_wise_model" where
  "example_embedding =
    \<lparr>cw_call = (\<lambda>wave weights. swf_data wave + 2 * swf_data weights),
     cw_call_batch = (\<lambda>batch weights. map (\<lambda>(c, w). c + 2 * w) (zip batch weights))\<rparr>"

definition example_config :: "(nat, nat) pipeline_config" where
  "example_config =
    \<lparr>segmentation = example_segmentation, duration = 5, embedding = example_embedding,
     step = 1 / 2, latency = 1 / 2, tau_active = 6 / 10, rho_update = 3 / 10, delta_new = 1,
     gamma = 3, beta = 10, max_speakers = 20\<rparr>"

definition example_window :: "nat \<Rightarrow> real \<Rightarrow> nat sliding_window_feature" where
  "example_window x t =
    \<lparr>swf_data = x,
     swf_sliding_window = \<lparr>sw_duration = 1 / 16000, sw_step = 1 / 16000, sw_start = t\<rparr>\<rparr>"

definition example_ops :: "(nat, nat, nat, string \<times> nat, string) collaborators" where
  "example_ops =
    \<lparr>regularize_stream = (\<lambda>d s r ws. map (\<lambda>w. w\<lparr>swf_data := 10 * swf_data w\<rparr>) ws),
     buffer_slide = (\<lambda>n ws. map (\<lambda>w. [w]) ws),
     OverlappedSpeechPenalty = (\<lambda>g b w. w\<lparr>swf_data := 3 * swf_data w\<rparr>),
     OverlappedSpeechPenalty_batch = (\<lambda>g b. map (\<lambda>x. 3 * x)),
     EmbeddingNormalization = (\<lambda>n e. e + 1),
     EmbeddingNormalization_batch = (\<lambda>n. map (\<lambda>e. e + 1)),
     OnlineSpeakerClustering = (\<lambda>t r d m k. 0),
     clustering_call = (\<lambda>s w e. (w\<lparr>swf_data := swf_data w + e + s\<rparr>, Suc s)),
     aggregation_call = (\<lambda>agg ws. case ws of [] \<Rightarrow> example_window 0 0 | w # _ \<Rightarrow> w),
     Binarize = (\<lambda>uri tau w. (uri, swf_data w)),
     get_duration = (\<lambda>f. 10),
     get_chunks = (\<lambda>r d s f. [1, 2, 3]),
     rearrange = (\<lambda>x. x),
     path_name = (\<lambda>f. f),
     shape1 = (\<lambda>xs. 4)\<rparr>"

definition example_source :: "nat audio_source" where
  "example_source =
    \<lparr>src_uri = ''meeting'', src_sample_rate = 16000, src_duration = Some 10,
     src_is_regular = True,
     src_stream = [example_window 1 0, example_window 2 (1 / 2), example_window 3 1]\<rparr>"

text \<open>
  The streams of two windows handed to the tracking stage in the examples, and the pairs
  the pipelines of the examples emit.
\<close>

definition example_segmentation_stream :: "nat sliding_window_feature list" where
  "example_segmentation_stream = [example_window 2 0, example_window 3 (1 / 2)]"

definition example_embedding_stream :: "nat list" where
  "example_embedding_stream = [14, 21]"

definition example_chunk_stream :: "nat sliding_window_feature list" where
  "example_chunk_stream = [example_window 1 0, example_window 2 (1 / 2)]"

definition example_output ::
  "((string \<times> nat) \<times> nat sliding_window_feature option) list" where
  "example_output =
    [((''meeting'', 16), Some (example_window 1 0)),
     ((''meeting'', 25), Some (example_window 2 (1 / 2)))]"

definition example_output_no_waveform ::
  "((string \<times> nat) \<times> nat sliding_window_feature option) list" where
  "example_output_no_waveform = [((''meeting'', 16), None), ((''meeting'', 25), None)]"

definition example_recording_output ::
  "((string \<times> nat) \<times> nat sliding_window_feature option) list" where
  "example_recording_output =
    [((''meeting'', 16), Some (example_window 1 0)),
     ((''meeting'', 25), Some (example_window 2 (1 / 2))),
     ((''meeting'', 34), Some (example_window 3 1))]"

section \<open>Properties\<close>

subsection \<open>Auxiliary facts\<close>

declare batch_slices.simps [simp del]
declare from_file_loop.simps [simp del]


lemma DelayedAggregation_init_eq_Inl:
  "(DelayedAggregation_init s l strategy e = Inl err) = (s = 0 \<and> err = ZeroDivisionError)"
  by (auto simp: DelayedAggregation_init_def py_truediv_def)



lemma from_model_streams_error:
  "from_model_streams ops config uri end_time segs embs audio = Inl err \<Longrightarrow>
     err = ZeroDivisionError"
  by (auto simp: from_model_streams_def Let_def DelayedAggregation_init_eq_Inl
      split: sum.splits option.splits)

lemma get_end_time_error:
  "get_end_time config source = Inl err \<Longrightarrow> err = ZeroDivisionError"
  by (auto simp: get_end_time_def py_mod_def split: option.splits sum.splits if_splits)

lemma zip_map_self: "zip xs (map f xs) = map (\<lambda>x. (x, f x)) xs"
  by (induction xs) simp_all

lemma source_embedding_stream_eq:
  "source_embedding_stream ops config regular (source_segmentation_stream config regular) =
     map (\<lambda>wave. EmbeddingNormalization ops 1
            (cw_call (embedding config) wave
               (OverlappedSpeechPenalty ops (gamma config) (beta config)
                  (fw_call (segmentation config) wave))))
       regular"
  by (simp add: source_embedding_stream_def source_segmentation_stream_def zip_map_self
      Let_def comp_def)

lemma map_nth_upt_take: "map (\<lambda>i. xs ! i) [0..<min n (length xs)] = take n xs"
  by (rule nth_equalityI) simp_all

lemma from_file_loop_slices:
  "from_file_loop ops config chunks bs i S E =
     (S @ map (fw_call_batch (segmentation config)) (batch_slices bs i chunks),
      E @ map (\<lambda>batch. EmbeddingNormalization_batch ops 1
                 (cw_call_batch (embedding config) batch
                    (OverlappedSpeechPenalty_batch ops (gamma config) (beta config)
                       (fw_call_batch (segmentation config) batch))))
            (batch_slices bs i chunks))"
proof (induction ops config chunks bs i S E rule: from_file_loop.induct)
  case (1 ops config chunks bs i S E)
  show ?case
  proof (cases "bs = 0 \<or> length chunks \<le> i")
    case True
    then show ?thesis
      by (simp add: from_file_loop.simps [of ops config chunks bs i] batch_slices.simps [of bs i])
  next
    case False
    then have lt: "i < length chunks" and pos: "0 < bs" by auto
    have slice: "take ((if length chunks < i + bs then length chunks else i + bs) - i)
                   (drop i chunks) = take bs (drop i chunks)"
      using lt by (auto simp: min_def)
    show ?thesis
      using False 1 [OF False refl refl refl refl refl]
      apply (subst from_file_loop.simps)
      apply (subst (1 2) batch_slices.simps)
      apply (simp add: Let_def slice)
      done
  qed
qed

lemma concat_batch_slices:
  "0 < bs \<Longrightarrow> concat (batch_slices bs i chunks) = drop i chunks"
proof (induction bs i chunks rule: batch_slices.induct)
  case (1 bs i chunks)
  show ?case
  proof (cases "length chunks \<le> i")
    case True
    then show ?thesis by (simp add: batch_slices.simps [of bs i])
  next
    case False
    with 1 have "concat (batch_slices bs (i + bs) chunks) = drop (i + bs) chunks" by simp
    then show ?thesis
      using False 1(2)
      apply (subst batch_slices.simps)
      apply (simp add: add.commute)
      by (metis append_take_drop_id drop_drop)
  qed
qed


lemma py_mod_floor_bounds:
  assumes "0 < y"
  shows "y * of_int \<lfloor>x / y\<rfloor> \<le> x" and "x < y * of_int \<lfloor>x / y\<rfloor> + y"
proof -
  have "of_int \<lfloor>x / y\<rfloor> * y \<le> (x / y) * y"
    using assms by (intro mult_right_mono) simp_all
  then show "y * of_int \<lfloor>x / y\<rfloor> \<le> x"
    using assms by (simp add: mult.commute)
  have "x / y < of_int \<lfloor>x / y\<rfloor> + 1" by linarith
  then have "x < (of_int \<lfloor>x / y\<rfloor> + 1) * y"
    using assms by (simp add: pos_divide_less_eq)
  then show "x < y * of_int \<lfloor>x / y\<rfloor> + y"
    by (simp add: algebra_simps)
qed


text \<open>
  For a positive step and a recording at least one step long, the end time of
  \<^verbatim>\<open>from_file\<close> is below the step and the one of \<^verbatim>\<open>get_end_time\<close> is not.
\<close>

lemma end_times_differ:
  assumes "0 < step config" and "src_duration source = Some (get_duration ops file)"
    and "step config \<le> get_duration ops file"
  shows "\<exists>live batch.
     get_end_time config source = Inr (Some live) \<and>
     from_file_end_time ops config file = Inr batch \<and>
     batch < step config \<and> step config \<le> live"
proof -
  let ?d = "get_duration ops file" and ?s = "step config"
  have live: "get_end_time config source = Inr (Some (?s * of_int \<lfloor>?d / ?s\<rfloor>))"
    using assms(1,2) by (simp add: get_end_time_def py_mod_def)
  have batch: "from_file_end_time ops config file = Inr (?d - ?s * of_int \<lfloor>?d / ?s\<rfloor>)"
    using assms(1) by (simp add: from_file_end_time_def py_mod_def)
  have small: "?d - ?s * of_int \<lfloor>?d / ?s\<rfloor> < ?s"
    using py_mod_floor_bounds(2) [OF assms(1), of ?d] by simp
  have "1 \<le> ?d / ?s"
    using assms(1,3) by (simp add: pos_le_divide_eq)
  then have "1 \<le> \<lfloor>?d / ?s\<rfloor>" by (simp add: le_floor_iff)
  then have "(1::real) \<le> of_int \<lfloor>?d / ?s\<rfloor>" by linarith
  then have "?s * 1 \<le> ?s * of_int \<lfloor>?d / ?s\<rfloor>"
    using assms(1) by (intro mult_left_mono) simp_all
  then have large: "?s \<le> ?s * of_int \<lfloor>?d / ?s\<rfloor>" by simp
  from live batch small large show ?thesis by blast
qed

text \<open>The window of index \<open>i\<close> of a replayed stream starts at \<open>i * step\<close>.\<close>

lemma replay_windows_start:
  "i < length (replay_windows array num_chunks resolution s) \<Longrightarrow>
     sw_start (swf_sliding_window (replay_windows array num_chunks resolution s ! i)) =
       real i * s"
  by (simp add: replay_windows_def)





lemma from_file_batches_positive:
  "0 < batch_size \<Longrightarrow>
     from_file_batches ops config chunks batch_size =
       Inr (map (fw_call_batch (segmentation config)) (batch_slices (nat batch_size) 0 chunks),
            map (\<lambda>batch. EmbeddingNormalization_batch ops 1
                   (cw_call_batch (embedding config) batch
                      (OverlappedSpeechPenalty_batch ops (gamma config) (beta config)
                         (fw_call_batch (segmentation config) batch))))
              (batch_slices (nat batch_size) 0 chunks))"
  by (simp add: from_file_batches_def from_file_loop_slices)

lemma from_file_needs_positive_batch_size:
  "from_file ops config file output_waveform batch_size = Inr out \<Longrightarrow> 0 < batch_size"
  by (auto simp: from_file_def from_file_batches_def Let_def
      split: sum.splits if_splits prod.splits)

lemma from_file_explicit:
  assumes "from_file ops config file output_waveform batch_size = Inr out"
  shows "\<exists>end_time resolution wav_resolution.
     from_file_end_time ops config file = Inr end_time \<and>
     from_model_streams ops config (takeWhile (\<lambda>c. c \<noteq> CHR ''.'') (path_name ops file))
       (Some end_time)
       (replay_windows
          (concat (map (fw_call_batch (segmentation config))
             (batch_slices (nat batch_size) 0
                (map (rearrange ops)
                   (get_chunks ops (sample_rate config) (duration config) (step config) file)))))
          (length (get_chunks ops (sample_rate config) (duration config) (step config) file))
          resolution (step config))
       (take (length (get_chunks ops (sample_rate config) (duration config) (step config) file))
          (concat (map (\<lambda>batch. EmbeddingNormalization_batch ops 1
                   (cw_call_batch (embedding config) batch
                      (OverlappedSpeechPenalty_batch ops (gamma config) (beta config)
                         (fw_call_batch (segmentation config) batch))))
             (batch_slices (nat batch_size) 0
                (map (rearrange ops)
                   (get_chunks ops (sample_rate config) (duration config) (step config) file))))))
       (if output_waveform
        then Some (replay_windows
               (map (rearrange ops)
                  (get_chunks ops (sample_rate config) (duration config) (step config) file))
               (length (get_chunks ops (sample_rate config) (duration config) (step config) file))
               wav_resolution (step config))
        else None) = Inr out"
proof -
  from assms have pos: "0 < batch_size" by (rule from_file_needs_positive_batch_size)
  show ?thesis
    using assms
    by (auto simp: from_file_def from_file_batches_positive [OF pos] Let_def map_nth_upt_take
        split: sum.splits if_splits)
qed


lemma from_source_explicit:
  assumes "from_source ops config source output_waveform = Inr out"
  shows "\<exists>end_time.
     get_end_time config source = Inr end_time \<and>
     from_model_streams ops config (src_uri source) end_time
       (map (fw_call (segmentation config)) (regular_stream ops config source))
       (map (\<lambda>wave. EmbeddingNormalization ops 1
              (cw_call (embedding config) wave
                 (OverlappedSpeechPenalty ops (gamma config) (beta config)
                    (fw_call (segmentation config) wave))))
          (regular_stream ops config source))
       (if output_waveform then Some (regular_stream ops config source) else None) = Inr out"
  using assms
  by (auto simp: from_source_def Let_def source_embedding_stream_eq
      source_segmentation_stream_def [symmetric] split: sum.splits if_splits)


lemma length_annotation_pipeline:
  "length (annotation_pipeline ops config uri aggregation segs embs) =
     length (buffer_slide ops (num_overlapping_windows aggregation)
       (starmap_stateful (clustering_call ops)
          (OnlineSpeakerClustering ops (tau_active config) (rho_update config)
             (delta_new config) ''cosine'' (max_speakers config))
          (zip segs embs)))"
  by (simp add: annotation_pipeline_def)



text \<open>The concrete instance, evaluated.\<close>

lemmas example_defs =
  example_segmentation_def example_embedding_def example_config_def example_window_def
  example_ops_def example_source_def

lemmas pipeline_defs =
  from_source_def from_model_streams_def get_end_time_def py_mod_def
  DelayedAggregation_init_def py_truediv_def sample_rate_def regular_stream_def
  source_segmentation_stream_def source_embedding_stream_def annotation_pipeline_def
  waveform_stream_def

lemmas example_stream_defs =
  example_segmentation_stream_def example_embedding_stream_def example_chunk_stream_def
  example_output_def example_output_no_waveform_def example_recording_output_def

lemma example_from_source:
  "from_source example_ops example_config example_source True = Inr example_recording_output"
  by (simp add: pipeline_defs example_defs example_stream_defs)

lemma example_from_file:
  "from_file example_ops example_config ''meeting.wav'' True 2 = Inr example_recording_output"
  by code_simp



subsection \<open>Construction of the configuration\<close>

text \<open>
  Claim C2. For every combination of \<open>step\<close>, \<open>latency\<close> and \<open>duration\<close> arguments,
  \<^verbatim>\<open>PipelineConfig\<close> is constructed if and only if \<open>step \<le> latency \<le> duration\<close> holds for
  the values after defaulting; otherwise the constructor raises the assertion error and
  returns no object.
\<close>

theorem PipelineConfig_init_valid_iff:
  "((\<exists>config. PipelineConfig_init seg emb d st l ta rh de ga be ms = Inr config) =
      (st \<le> (case l of None \<Rightarrow> st | Some v \<Rightarrow> v) \<and>
       (case l of None \<Rightarrow> st | Some v \<Rightarrow> v)
         \<le> (case d of None \<Rightarrow> specifications_duration seg | Some v \<Rightarrow> v))) \<and>
   ((PipelineConfig_init seg emb d st l ta rh de ga be ms = Inl InvalidLatency) =
      (\<not> (st \<le> (case l of None \<Rightarrow> st | Some v \<Rightarrow> v) \<and>
          (case l of None \<Rightarrow> st | Some v \<Rightarrow> v)
            \<le> (case d of None \<Rightarrow> specifications_duration seg | Some v \<Rightarrow> v))))"
  by (simp add: PipelineConfig_init_def Let_def)

theorem PipelineConfig_init_valid_iff_witness:
  "PipelineConfig_init example_segmentation example_embedding None (1 / 2) None
     (6 / 10) (3 / 10) 1 3 10 20 = Inr example_config \<and>
   PipelineConfig_init example_segmentation example_embedding (Some 5) (1 / 2) (Some 6)
     (6 / 10) (3 / 10) 1 3 10 20 = Inl InvalidLatency"
proof -
  have ok: "\<exists>config. PipelineConfig_init example_segmentation example_embedding None (1 / 2)
      None (6 / 10) (3 / 10) 1 3 10 20 = Inr config"
    using PipelineConfig_init_valid_iff [of example_segmentation example_embedding None
        "1 / 2" None "6 / 10" "3 / 10" 1 3 10 20]
    by (simp add: example_segmentation_def)
  then have "PipelineConfig_init example_segmentation example_embedding None (1 / 2) None
      (6 / 10) (3 / 10) 1 3 10 20 = Inr example_config"
    by (auto simp: PipelineConfig_init_def Let_def example_config_def example_segmentation_def
        split: if_splits)
  moreover have "PipelineConfig_init example_segmentation example_embedding (Some 5) (1 / 2)
      (Some 6) (6 / 10) (3 / 10) 1 3 10 20 = Inl InvalidLatency"
    using PipelineConfig_init_valid_iff [of example_segmentation example_embedding "Some 5"
        "1 / 2" "Some 6" "6 / 10" "3 / 10" 1 3 10 20]
    by simp
  ultimately show ?thesis by simp
qed

text \<open>
  Claim C9. A latency that is not given becomes \<open>step\<close>, a duration that is not given
  becomes the duration in the segmentation model's specifications, and the constraint
  \<open>step \<le> latency \<le> duration\<close> holds of these resolved values in every constructed
  configuration; with the default latency the lower bound holds with equality.
\<close>

theorem PipelineConfig_init_defaults:
  "PipelineConfig_init seg emb d st l ta rh de ga be ms = Inr config \<Longrightarrow>
     step config = st \<and>
     latency config = (case l of None \<Rightarrow> st | Some v \<Rightarrow> v) \<and>
     duration config = (case d of None \<Rightarrow> specifications_duration seg | Some v \<Rightarrow> v) \<and>
     step config \<le> latency config \<and> latency config \<le> duration config \<and>
     (l = None \<longrightarrow> latency config = step config)"
  by (auto simp: PipelineConfig_init_def Let_def split: if_splits option.splits)

theorem PipelineConfig_init_defaults_witness:
  "PipelineConfig_init example_segmentation example_embedding None (1 / 2) None
     (6 / 10) (3 / 10) 1 3 10 20 = Inr example_config \<and>
   step example_config = 1 / 2 \<and> latency example_config = 1 / 2 \<and>
   duration example_config = 5 \<and> latency example_config = step example_config"
proof -
  have init: "PipelineConfig_init example_segmentation example_embedding None (1 / 2) None
      (6 / 10) (3 / 10) 1 3 10 20 = Inr example_config"
    by (simp add: PipelineConfig_init_def Let_def example_config_def example_segmentation_def)
  show ?thesis
    using init PipelineConfig_init_defaults [OF init]
    by (simp add: example_segmentation_def)
qed

subsection \<open>The end time of a stream\<close>




text \<open>
  Claim C1 says that both entry points hand the same stream end time to the tracking
  stage. For a recording of 10 seconds and the default step, \<^verbatim>\<open>from_source\<close> passes
  \<open>10 - 10 % 0.5 = 10\<close> while \<^verbatim>\<open>from_file\<close> passes \<open>10 % 0.5 = 0\<close>.
\<close>

theorem from_file_end_time_mismatch:
  "get_duration example_ops ''meeting.wav'' = 10 \<and>
   src_duration example_source = Some 10 \<and>
   get_end_time example_config example_source = Inr (Some 10) \<and>
   from_file_end_time example_ops example_config ''meeting.wav'' = Inr 0"
  by (simp add: get_end_time_def from_file_end_time_def py_mod_def example_source_def
      example_config_def example_ops_def)

subsection \<open>The pipeline of the tracking stage\<close>







subsection \<open>Setting up the live pipeline\<close>

lemma from_source_passes_check:
  "src_sample_rate source = sample_rate config \<Longrightarrow>
     from_source ops config source output_waveform \<noteq> Inl (SampleRateMismatch a b)"
proof
  assume eq: "src_sample_rate source = sample_rate config"
  assume fails: "from_source ops config source output_waveform = Inl (SampleRateMismatch a b)"
  show False
  proof (cases "get_end_time config source")
    case (Inl err)
    with fails eq have "err = SampleRateMismatch a b"
      by (simp add: from_source_def Let_def)
    with Inl get_end_time_error show False by fastforce
  next
    case (Inr end_time)
    with fails eq obtain segs embs audio where
      "from_model_streams ops config (src_uri source) end_time segs embs audio =
         Inl (SampleRateMismatch a b)"
      by (simp add: from_source_def Let_def)
    then show False using from_model_streams_error by fastforce
  qed
qed

text \<open>
  Claim C3. When the sample rate of the source differs from the one of the configuration,
  \<^verbatim>\<open>from_source\<close> fails with the sample-rate assertion whatever the collaborators are,
  so before any of them is called; when the two rates agree, \<^verbatim>\<open>from_source\<close> never
  fails with that assertion.
\<close>

theorem from_source_sample_rate_check:
  "(src_sample_rate source \<noteq> sample_rate config \<longrightarrow>
      (\<forall>(ops :: ('a, 'e, 'st, 'ann, 'f) collaborators) output_waveform.
         from_source ops config source output_waveform =
           Inl (SampleRateMismatch (src_sample_rate source) (sample_rate config)))) \<and>
   (src_sample_rate source = sample_rate config \<longrightarrow>
      (\<forall>(ops :: ('a, 'e, 'st, 'ann, 'f) collaborators) output_waveform a b.
         from_source ops config source output_waveform \<noteq> Inl (SampleRateMismatch a b)))"
proof -
  have fails: "from_source ops config source output_waveform =
      Inl (SampleRateMismatch (src_sample_rate source) (sample_rate config))"
    if "src_sample_rate source \<noteq> sample_rate config"
    for ops :: "('a, 'e, 'st, 'ann, 'f) collaborators" and output_waveform
    using that by (simp add: from_source_def)
  have passes: "from_source ops config source output_waveform
      \<noteq> Inl (SampleRateMismatch a b)"
    if "src_sample_rate source = sample_rate config"
    for ops :: "('a, 'e, 'st, 'ann, 'f) collaborators" and output_waveform a b
    using that by (rule from_source_passes_check)
  show ?thesis using fails passes by blast
qed

theorem from_source_sample_rate_check_witness:
  "from_source example_ops example_config (example_source\<lparr>src_sample_rate := 8000\<rparr>) True =
     Inl (SampleRateMismatch 8000 16000) \<and>
   from_source example_ops example_config example_source True
     \<noteq> Inl (SampleRateMismatch 16000 16000)"
  using from_source_sample_rate_check [of "example_source\<lparr>src_sample_rate := 8000\<rparr>"
      example_config, where ?'st = nat and ?'ann = "string \<times> nat" and ?'f = string]
    from_source_sample_rate_check [of example_source example_config,
      where ?'st = nat and ?'ann = "string \<times> nat" and ?'f = string]
  by (simp add: example_source_def example_config_def example_segmentation_def sample_rate_def)



subsection \<open>The embeddings handed to the tracking stage\<close>

text \<open>
  Claim C5. In both entry points the embedding stream handed to the tracking stage is
  computed in the order penalty, embedding model, normalization with \<open>norm = 1\<close>: per
  window of the regular stream in \<^verbatim>\<open>from_source\<close>, per batch of chunks in
  \<^verbatim>\<open>from_file\<close>, the penalty being applied to the segmentation of the same window or
  batch.
\<close>

theorem embedding_stages_in_order:
  "(\<forall>out. from_source ops config source output_waveform = Inr out \<longrightarrow>
      (\<exists>end_time.
         get_end_time config source = Inr end_time \<and>
         from_model_streams ops config (src_uri source) end_time
           (map (fw_call (segmentation config)) (regular_stream ops config source))
           (map (\<lambda>wave. EmbeddingNormalization ops 1
                  (cw_call (embedding config) wave
                     (OverlappedSpeechPenalty ops (gamma config) (beta config)
                        (fw_call (segmentation config) wave))))
              (regular_stream ops config source))
           (if output_waveform then Some (regular_stream ops config source) else None)
         = Inr out)) \<and>
   (\<forall>out. from_file ops config file output_waveform batch_size = Inr out \<longrightarrow>
      (\<exists>end_time resolution wav_resolution.
         from_file_end_time ops config file = Inr end_time \<and>
         from_model_streams ops config (takeWhile (\<lambda>c. c \<noteq> CHR ''.'') (path_name ops file))
           (Some end_time)
           (replay_windows
              (concat (map (fw_call_batch (segmentation config))
                 (batch_slices (nat batch_size) 0
                    (map (rearrange ops)
                       (get_chunks ops (sample_rate config) (duration config) (step config)
                          file)))))
              (length (get_chunks ops (sample_rate config) (duration config) (step config)
                         file))
              resolution (step config))
           (take (length (get_chunks ops (sample_rate config) (duration config) (step config)
                            file))
              (concat (map (\<lambda>batch. EmbeddingNormalization_batch ops 1
                       (cw_call_batch (embedding config) batch
                          (OverlappedSpeechPenalty_batch ops (gamma config) (beta config)
                             (fw_call_batch (segmentation config) batch))))
                 (batch_slices (nat batch_size) 0
                    (map (rearrange ops)
                       (get_chunks ops (sample_rate config) (duration config) (step config)
                          file))))))
           (if output_waveform
            then Some (replay_windows
                   (map (rearrange ops)
                      (get_chunks ops (sample_rate config) (duration config) (step config)
                         file))
                   (length (get_chunks ops (sample_rate config) (duration config)
                              (step config) file))
                   wav_resolution (step config))
            else None)
         = Inr out))"
proof (intro conjI allI impI)
  fix out
  assume "from_source ops config source output_waveform = Inr out"
  then show "\<exists>end_time.
         get_end_time config source = Inr end_time \<and>
         from_model_streams ops config (src_uri source) end_time
           (map (fw_call (segmentation config)) (regular_stream ops config source))
           (map (\<lambda>wave. EmbeddingNormalization ops 1
                  (cw_call (embedding config) wave
                     (OverlappedSpeechPenalty ops (gamma config) (beta config)
                        (fw_call (segmentation config) wave))))
              (regular_stream ops config source))
           (if output_waveform then Some (regular_stream ops config source) else None)
         = Inr out"
    by (rule from_source_explicit)
next
  fix out
  assume "from_file ops config file output_waveform batch_size = Inr out"
  then show "\<exists>end_time resolution wav_resolution.
         from_file_end_time ops config file = Inr end_time \<and>
         from_model_streams ops config (takeWhile (\<lambda>c. c \<noteq> CHR ''.'') (path_name ops file))
           (Some end_time)
           (replay_windows
              (concat (map (fw_call_batch (segmentation config))
                 (batch_slices (nat batch_size) 0
                    (map (rearrange ops)
                       (get_chunks ops (sample_rate config) (duration config) (step config)
                          file)))))
              (length (get_chunks ops (sample_rate config) (duration config) (step config)
                         file))
              resolution (step config))
           (take (length (get_chunks ops (sample_rate config) (duration config) (step config)
                            file))
              (concat (map (\<lambda>batch. EmbeddingNormalization_batch ops 1
                       (cw_call_batch (embedding config) batch
                          (OverlappedSpeechPenalty_batch ops (gamma config) (beta config)
                             (fw_call_batch (segmentation config) batch))))
                 (batch_slices (nat batch_size) 0
                    (map (rearrange ops)
                       (get_chunks ops (sample_rate config) (duration config) (step config)
                          file))))))
           (if output_waveform
            then Some (replay_windows
                   (map (rearrange ops)
                      (get_chunks ops (sample_rate config) (duration config) (step config)
                         file))
                   (length (get_chunks ops (sample_rate config) (duration config)
                              (step config) file))
                   wav_resolution (step config))
            else None)
         = Inr out"
    by (rule from_file_explicit)
qed

theorem embedding_stages_in_order_witness:
  "from_source example_ops example_config example_source True = Inr example_recording_output \<and>
   (\<exists>end_time.
         get_end_time example_config example_source = Inr end_time \<and>
         from_model_streams example_ops example_config (src_uri example_source) end_time
           (map (fw_call (segmentation example_config)) (regular_stream example_ops example_config example_source))
           (map (\<lambda>wave. EmbeddingNormalization example_ops 1
                  (cw_call (embedding example_config) wave
                     (OverlappedSpeechPenalty example_ops (gamma example_config) (beta example_config)
                        (fw_call (segmentation example_config) wave))))
              (regular_stream example_ops example_config example_source))
           (if True then Some (regular_stream example_ops example_config example_source) else None)
         = Inr example_recording_output) \<and>
   from_file example_ops example_config ''meeting.wav'' True 2 = Inr example_recording_output \<and>
   (\<exists>end_time resolution wav_resolution.
         from_file_end_time example_ops example_config ''meeting.wav'' = Inr end_time \<and>
         from_model_streams example_ops example_config (takeWhile (\<lambda>c. c \<noteq> CHR ''.'') (path_name example_ops ''meeting.wav''))
           (Some end_time)
           (replay_windows
              (concat (map (fw_call_batch (segmentation example_config))
                 (batch_slices (nat 2) 0
                    (map (rearrange example_ops)
                       (get_chunks example_ops (sample_rate example_config) (duration example_config) (step example_config)
                          ''meeting.wav'')))))
              (length (get_chunks example_ops (sample_rate example_config) (duration example_config) (step example_config)
                         ''meeting.wav''))
              resolution (step example_config))
           (take (length (get_chunks example_ops (sample_rate example_config) (duration example_config) (step example_config)
                            ''meeting.wav''))
              (concat (map (\<lambda>batch. EmbeddingNormalization_batch example_ops 1
                       (cw_call_batch (embedding example_config) batch
                          (OverlappedSpeechPenalty_batch example_ops (gamma example_config) (beta example_config)
                             (fw_call_batch (segmentation example_config) batch))))
                 (batch_slices (nat 2) 0
                    (map (rearrange example_ops)
                       (get_chunks example_ops (sample_rate example_config) (duration example_config) (step example_config)
                          ''meeting.wav''))))))
           (if True
            then Some (replay_windows
                   (map (rearrange example_ops)
                      (get_chunks example_ops (sample_rate example_config) (duration example_config) (step example_config)
                         ''meeting.wav''))
                   (length (get_chunks example_ops (sample_rate example_config) (duration example_config)
                              (step example_config) ''meeting.wav''))
                   wav_resolution (step example_config))
            else None)
         = Inr example_recording_output)"
  using example_from_source example_from_file
    embedding_stages_in_order [of example_ops example_config example_source True
      "''meeting.wav''" 2]
  by blast

end
